theory Spec2Isabelle
  imports Complex_Main "HOL-Library.Multiset" "HOL-Library.Product_Lexorder"
begin

section \<open>JavaScript values read by the frontend\<close>

text \<open>
  The frontend reads response bodies as parsed JSON. A value is one of JavaScript's
  primitives, an array or an object; \<open>JUndefined\<close> is what a missing property reads as.
\<close>

datatype js_value =
    JUndefined
  | JNull
  | JBool bool
  | JNum real
  | JStr string
  | JArr "js_value list"
  | JObj "(string \<times> js_value) list"

text \<open>
  JavaScript truthiness, as the operator \<^verbatim>\<open>||\<close> tests it: \<^verbatim>\<open>undefined\<close>,
  \<^verbatim>\<open>null\<close>, \<^verbatim>\<open>false\<close>, \<^verbatim>\<open>0\<close> and the empty string are falsy; every
  array and every object is truthy (a JSON number is never NaN).
\<close>

fun truthy :: "js_value \<Rightarrow> bool" where
  "truthy JUndefined = False"
| "truthy JNull = False"
| "truthy (JBool b) = b"
| "truthy (JNum x) = (x \<noteq> 0)"
| "truthy (JStr s) = (s \<noteq> [])"
| "truthy (JArr xs) = True"
| "truthy (JObj kvs) = True"

text \<open>\<^verbatim>\<open>a || b\<close>: the left operand when it is truthy, the right one otherwise.\<close>

definition js_or :: "js_value \<Rightarrow> js_value \<Rightarrow> js_value" where
  "js_or a b = (if truthy a then a else b)"

text \<open>
  \<^verbatim>\<open>v?.k\<close>: optional chaining gives \<^verbatim>\<open>undefined\<close> on \<^verbatim>\<open>undefined\<close> and
  \<^verbatim>\<open>null\<close>; an object gives the property's value when it has one; a primitive or an
  array has no property of a name such as \<^verbatim>\<open>detail\<close>.
\<close>

fun opt_prop :: "js_value \<Rightarrow> string \<Rightarrow> js_value" where
  "opt_prop (JObj kvs) k = (case map_of kvs k of None \<Rightarrow> JUndefined | Some v \<Rightarrow> v)"
| "opt_prop v k = JUndefined"

section \<open>The API client (utils/api.js)\<close>

text \<open>
  An axios error carries the response when the server answered
  (\<^verbatim>\<open>err.response\<close> is undefined on a network error or a timeout).
\<close>

record http_response =
  status :: int
  data :: js_value

record axios_error =
  message :: string
  response :: "http_response option"

text \<open>
  What the interceptor can touch of the browser: \<^verbatim>\<open>localStorage\<close> and the value last
  assigned to \<^verbatim>\<open>window.location.href\<close>.
\<close>

record browser =
  localStorage :: "string \<rightharpoonup> string"
  location_href :: string

text \<open>\<^verbatim>\<open>err.response?.status\<close>\<close>

definition response_status :: "axios_error \<Rightarrow> int option" where
  "response_status err = map_option status (response err)"

text \<open>
  The response interceptor's two handlers. A settled promise is a sum: \<open>Inl\<close> a
  rejection with its reason, \<open>Inr\<close> a fulfilment with its value.
  \<^verbatim>\<open>
  api.interceptors.response.use(
    (res) => res,
    (err) => {
      if (err.response?.status === 401) {
        localStorage.removeItem('qe_token')
        window.location.href = '/login'
      }
      return Promise.reject(err)
    }
  )
  \<close>
\<close>

definition on_fulfilled :: "http_response \<Rightarrow> browser \<Rightarrow> (axios_error + http_response) \<times> browser" where
  "on_fulfilled res b = (Inr res, b)"

definition on_rejected :: "axios_error \<Rightarrow> browser \<Rightarrow> (axios_error + http_response) \<times> browser" where
  "on_rejected err b =
     (let b' = (if response_status err = Some 401
                then b\<lparr>localStorage := (localStorage b)(''qe_token'' := None),
                       location_href := ''/login''\<rparr>
                else b)
      in (Inl err, b'))"

section \<open>The store (store/index.js)\<close>

text \<open>What the pages read of a ranked strategy and of the optimizer's response.\<close>

record margin_breakdown =
  total :: real
  span :: real
  exposure :: real

record strategy =
  name :: string
  ev :: real
  pop :: real
  sharpe :: real
  max_loss :: real
  margin :: margin_breakdown
  net_premium :: real

record optimize_result =
  symbol :: string
  spot :: real
  iv :: real
  strategies :: "strategy list"
  n_candidates_evaluated :: nat
  optimization_time_ms :: real
  is_mock_data :: bool

text \<open>
  The optimizer slice of the store. \<open>optimizerResult\<close> is \<^verbatim>\<open>null\<close> until a run
  succeeds; \<open>optimizerError\<close> holds \<^verbatim>\<open>null\<close>, the response's detail or the default
  message. The rest of the store is the record's extension.
\<close>

record store =
  optimizerResult :: "optimize_result option"
  selectedStrategy :: nat
  optimizing :: bool
  optimizerError :: js_value

text \<open>\<^verbatim>\<open>err.response?.data?.detail\<close>\<close>

definition error_detail :: "axios_error \<Rightarrow> js_value" where
  "error_detail err =
     (case response err of None \<Rightarrow> JUndefined | Some res \<Rightarrow> opt_prop (data res) ''detail'')"

text \<open>
  \<^verbatim>\<open>
  runOptimize: async () => {
    set({ optimizing: true, optimizerError: null })
    try {
      const result = await runOptimizer(get().inputs)
      set({ optimizerResult: result, selectedStrategy: 0, optimizing: false })
    } catch (err) {
      set({
        optimizerError: err.response?.data?.detail || 'Optimization failed.',
        optimizing: false,
      })
    }
  },
  selectStrategy: (idx) => set({ selectedStrategy: idx }),
  \<close>
  The function runs in two steps around the request: \<open>runOptimize_begin\<close> before the
  \<^verbatim>\<open>await\<close>, \<open>runOptimize_settle\<close> when the request has settled. \<^verbatim>\<open>set\<close> merges the
  given fields into the state, so every other field keeps its value.
\<close>

definition runOptimize_begin :: "'a store_scheme \<Rightarrow> 'a store_scheme" where
  "runOptimize_begin s = s\<lparr>optimizing := True, optimizerError := JNull\<rparr>"

definition runOptimize_settle ::
  "axios_error + optimize_result \<Rightarrow> 'a store_scheme \<Rightarrow> 'a store_scheme" where
  "runOptimize_settle outcome s =
     (case outcome of
        Inr result \<Rightarrow> s\<lparr>optimizerResult := Some result, selectedStrategy := 0, optimizing := False\<rparr>
      | Inl err \<Rightarrow>
          s\<lparr>optimizerError := js_or (error_detail err) (JStr ''Optimization failed.''),
            optimizing := False\<rparr>)"

definition runOptimize :: "axios_error + optimize_result \<Rightarrow> 'a store_scheme \<Rightarrow> 'a store_scheme" where
  "runOptimize outcome s = runOptimize_settle outcome (runOptimize_begin s)"

definition selectStrategy :: "nat \<Rightarrow> 'a store_scheme \<Rightarrow> 'a store_scheme" where
  "selectStrategy idx s = s\<lparr>selectedStrategy := idx\<rparr>"

text \<open>\<^verbatim>\<open>xs?.[i]\<close> on an array: the element, or \<^verbatim>\<open>undefined\<close> past the end.\<close>

definition opt_index :: "'a list \<Rightarrow> nat \<Rightarrow> 'a option" where
  "opt_index xs i = (if i < length xs then Some (xs ! i) else None)"

text \<open>
  The strategy the pages show:
  \<^verbatim>\<open>const strat = optimizerResult?.strategies?.[selectedStrategy]\<close>
\<close>

definition selected_strat :: "'a store_scheme \<Rightarrow> strategy option" where
  "selected_strat s =
     (case optimizerResult s of None \<Rightarrow> None
      | Some r \<Rightarrow> opt_index (strategies r) (selectedStrategy s))"

text \<open>The first strategy of a result, when it has one.\<close>

definition first_strategy :: "optimize_result \<Rightarrow> strategy option" where
  "first_strategy r = (case strategies r of [] \<Rightarrow> None | x # _ \<Rightarrow> Some x)"

section \<open>The Strategy Optimizer's filtering and ranking\<close>

text \<open>
  Modelled from the spec: the Strategy Optimizer's Filtering and Ranking steps (spec 4.6).
  The optimizer itself (backend/core/optimizer.py in the repository's layout) is not
  among the sources; what follows is the spec's text. The request parameters are the
  ones the spec lists (the store's \<^verbatim>\<open>inputs\<close> carry the same fields). The candidates are
  the scored strategies in candidate generation order: generating and scoring them is
  not modelled.
\<close>

datatype market_view = Bullish | Bearish | Neutral
datatype volatility_outlook = Rising | Falling | Stable
datatype risk_appetite = Conservative | Moderate | Aggressive
datatype time_horizon = Weekly | Monthly

record request_parameters =
  capital :: real
  view :: market_view
  vol_outlook :: volatility_outlook
  appetite :: risk_appetite
  horizon :: time_horizon
  top_n :: nat

text \<open>
  Modelled from the spec: "discard any candidate whose total margin exceeds available
  capital".
\<close>

definition exceeds_capital :: "real \<Rightarrow> strategy \<Rightarrow> bool" where
  "exceeds_capital c s \<longleftrightarrow> c < total (margin s)"

text \<open>
  Modelled from the spec: "primary key EV descending; tie-break 1 POP descending;
  tie-break 2 Sharpe descending". \<open>outranks a b\<close>: these keys put \<open>a\<close> strictly
  before \<open>b\<close>. \<open>tied a b\<close>: the three keys do not tell them apart.
\<close>

definition outranks :: "strategy \<Rightarrow> strategy \<Rightarrow> bool" where
  "outranks a b \<longleftrightarrow>
     ev b < ev a \<or> (ev a = ev b \<and> (pop b < pop a \<or> (pop a = pop b \<and> sharpe b < sharpe a)))"

definition tied :: "strategy \<Rightarrow> strategy \<Rightarrow> bool" where
  "tied a b \<longleftrightarrow> ev a = ev b \<and> pop a = pop b \<and> sharpe a = sharpe b"

text \<open>
  Modelled from the spec: the order of a ranked list, which the optimizer's code would
  produce. \<open>ranked_before a b\<close> is what the keys allow between an earlier \<open>a\<close> and
  a later \<open>b\<close>: EV descending, then POP descending, then Sharpe descending.
\<close>

definition ranked_before :: "strategy \<Rightarrow> strategy \<Rightarrow> bool" where
  "ranked_before a b \<longleftrightarrow>
     ev b < ev a \<or> (ev a = ev b \<and> (pop b < pop a \<or> (pop a = pop b \<and> sharpe b \<le> sharpe a)))"

text \<open>
  Modelled from the spec: "tie-break 3 stable by candidate generation order". The
  ranking inserts each candidate in front of the ranked later candidates, behind those
  that outrank it and before those it ties with.
\<close>

fun insert_ranked :: "strategy \<Rightarrow> strategy list \<Rightarrow> strategy list" where
  "insert_ranked x [] = [x]"
| "insert_ranked x (y # ys) = (if outranks y x then y # insert_ranked x ys else x # y # ys)"

fun rank :: "strategy list \<Rightarrow> strategy list" where
  "rank [] = []"
| "rank (x # xs) = insert_ranked x (rank xs)"

text \<open>Modelled from the spec: filter by capital, rank, "return the first top_n".\<close>

definition optimize :: "'a request_parameters_scheme \<Rightarrow> strategy list \<Rightarrow> strategy list" where
  "optimize p cands = take (top_n p) (rank (filter (\<lambda>s. \<not> exceeds_capital (capital p) s) cands))"

text \<open>The three ranking keys as one key in lexicographic order, smallest first.\<close>

definition rank_key :: "strategy \<Rightarrow> real \<times> real \<times> real" where
  "rank_key s = (- ev s, - pop s, - sharpe s)"

subsection \<open>Example data\<close>

text \<open>The store's default inputs, and five scored candidates in generation order.\<close>

definition default_inputs :: request_parameters where
  "default_inputs = \<lparr>capital = 250000, view = Bullish, vol_outlook = Falling,
     appetite = Moderate, horizon = Weekly, top_n = 3\<rparr>"

definition bull_call_spread :: strategy where
  "bull_call_spread = \<lparr>name = ''Bull Call Spread'', ev = 1200, pop = 0.55, sharpe = 1.1,
     max_loss = 5000, margin = \<lparr>total = 40000, span = 30000, exposure = 10000\<rparr>,
     net_premium = - 3000\<rparr>"

definition long_call :: strategy where
  "long_call = \<lparr>name = ''Long Call'', ev = 1200, pop = 0.55, sharpe = 1.1,
     max_loss = 9000, margin = \<lparr>total = 9000, span = 9000, exposure = 0\<rparr>,
     net_premium = - 9000\<rparr>"

definition short_put :: strategy where
  "short_put = \<lparr>name = ''Short Put'', ev = 2000, pop = 0.7, sharpe = 0.9,
     max_loss = 400000, margin = \<lparr>total = 300000, span = 240000, exposure = 60000\<rparr>,
     net_premium = 6000\<rparr>"

definition bull_put_spread :: strategy where
  "bull_put_spread = \<lparr>name = ''Bull Put Spread'', ev = 1500, pop = 0.6, sharpe = 1.3,
     max_loss = 7000, margin = \<lparr>total = 60000, span = 45000, exposure = 15000\<rparr>,
     net_premium = 2500\<rparr>"

definition call_ratio_spread :: strategy where
  "call_ratio_spread = \<lparr>name = ''Call Ratio Spread'', ev = 1200, pop = 0.6, sharpe = 0.8,
     max_loss = 20000, margin = \<lparr>total = 250000, span = 200000, exposure = 50000\<rparr>,
     net_premium = 500\<rparr>"

section \<open>The response interceptor\<close>

text \<open>
  Claim C9. For every response rejected with status 401 the interceptor removes the key
  \<^verbatim>\<open>qe_token\<close> from \<^verbatim>\<open>localStorage\<close> (every other key keeps its value) and assigns
  \<^verbatim>\<open>/login\<close> to \<^verbatim>\<open>window.location.href\<close>; whatever the status, the promise it returns
  rejects with the original error; a rejection with any other status, or with no
  response at all, leaves the browser as it was; and a fulfilled response is returned as
  it is.
\<close>

theorem response_interceptor_401:
  "fst (on_rejected err b) = Inl err
   \<and> (response_status err = Some 401 \<longrightarrow>
        localStorage (snd (on_rejected err b)) = (localStorage b)(''qe_token'' := None)
        \<and> location_href (snd (on_rejected err b)) = ''/login'')
   \<and> (response_status err \<noteq> Some 401 \<longrightarrow> snd (on_rejected err b) = b)
   \<and> on_fulfilled res b = (Inr res, b)"
  by (simp add: on_rejected_def on_fulfilled_def Let_def)

theorem response_interceptor_401_witness:
  "response_status \<lparr>message = ''Request failed with status code 401'',
                     response = Some \<lparr>status = 401, data = JObj [(''detail'', JStr ''Not authenticated'')]\<rparr>\<rparr> = Some 401
   \<and> localStorage (snd (on_rejected
         \<lparr>message = ''Request failed with status code 401'',
          response = Some \<lparr>status = 401, data = JObj [(''detail'', JStr ''Not authenticated'')]\<rparr>\<rparr>
         \<lparr>localStorage = [''qe_token'' \<mapsto> ''abc'', ''theme'' \<mapsto> ''dark''], location_href = ''/optimizer''\<rparr>))
       = [''theme'' \<mapsto> ''dark'']
   \<and> location_href (snd (on_rejected
         \<lparr>message = ''Request failed with status code 401'',
          response = Some \<lparr>status = 401, data = JObj [(''detail'', JStr ''Not authenticated'')]\<rparr>\<rparr>
         \<lparr>localStorage = [''qe_token'' \<mapsto> ''abc'', ''theme'' \<mapsto> ''dark''], location_href = ''/optimizer''\<rparr>))
       = ''/login''
   \<and> response_status \<lparr>message = ''Network Error'', response = None\<rparr> \<noteq> Some 401
   \<and> snd (on_rejected \<lparr>message = ''Network Error'', response = None\<rparr>
         \<lparr>localStorage = [''qe_token'' \<mapsto> ''abc''], location_href = ''/optimizer''\<rparr>)
       = \<lparr>localStorage = [''qe_token'' \<mapsto> ''abc''], location_href = ''/optimizer''\<rparr>"
  using response_interceptor_401
    [of "\<lparr>message = ''Request failed with status code 401'',
          response = Some \<lparr>status = 401, data = JObj [(''detail'', JStr ''Not authenticated'')]\<rparr>\<rparr>"
        "\<lparr>localStorage = [''qe_token'' \<mapsto> ''abc'', ''theme'' \<mapsto> ''dark''], location_href = ''/optimizer''\<rparr>"]
    response_interceptor_401
    [of "\<lparr>message = ''Network Error'', response = None\<rparr>"
        "\<lparr>localStorage = [''qe_token'' \<mapsto> ''abc''], location_href = ''/optimizer''\<rparr>"]
  by (auto simp add: response_status_def fun_eq_iff)

section \<open>The store's runOptimize\<close>

text \<open>
  Claim C10, as the code has it. When the request is rejected, \<open>runOptimize\<close> leaves
  \<open>optimizerResult\<close>, \<open>selectedStrategy\<close> and the rest of the store unchanged (so does
  each of its two steps, whatever the state it runs in), sets \<open>optimizing\<close> to false, and
  sets \<open>optimizerError\<close> to the response body's \<^verbatim>\<open>detail\<close> when that value is truthy and
  to \<^verbatim>\<open>'Optimization failed.'\<close> otherwise: also when the body has a \<^verbatim>\<open>detail\<close> that is
  the empty string, \<^verbatim>\<open>null\<close>, \<^verbatim>\<open>false\<close> or \<^verbatim>\<open>0\<close>. When the request succeeds it stores
  the new result, sets \<open>selectedStrategy\<close> to 0 and \<open>optimizing\<close> to false, and leaves the
  error cleared; the strategy the pages then show is the result's first one (none when
  the result has no strategy).
\<close>

theorem runOptimize_settles:
  "optimizerResult (runOptimize (Inl err) s) = optimizerResult s
   \<and> selectedStrategy (runOptimize (Inl err) s) = selectedStrategy s
   \<and> optimizing (runOptimize (Inl err) s) = False
   \<and> optimizerError (runOptimize (Inl err) s) =
        (if truthy (error_detail err) then error_detail err else JStr ''Optimization failed.'')
   \<and> store.more (runOptimize (Inl err) s) = store.more s
   \<and> optimizerResult (runOptimize_begin s) = optimizerResult s
   \<and> selectedStrategy (runOptimize_begin s) = selectedStrategy s
   \<and> optimizerResult (runOptimize_settle (Inl err) s) = optimizerResult s
   \<and> selectedStrategy (runOptimize_settle (Inl err) s) = selectedStrategy s
   \<and> optimizerResult (runOptimize (Inr r) s) = Some r
   \<and> selectedStrategy (runOptimize (Inr r) s) = 0
   \<and> optimizing (runOptimize (Inr r) s) = False
   \<and> optimizerError (runOptimize (Inr r) s) = JNull
   \<and> store.more (runOptimize (Inr r) s) = store.more s
   \<and> selected_strat (runOptimize (Inr r) s) = first_strategy r"
  by (simp add: runOptimize_def runOptimize_settle_def runOptimize_begin_def js_or_def
        selected_strat_def first_strategy_def opt_index_def split: list.split)

theorem runOptimize_settles_witness:
  "optimizerError (runOptimize
       (Inl \<lparr>message = ''Request failed with status code 400'',
             response = Some \<lparr>status = 400, data = JObj [(''detail'', JStr ''No option chain for symbol'')]\<rparr>\<rparr>)
       \<lparr>optimizerResult = None, selectedStrategy = 2, optimizing = False, optimizerError = JNull\<rparr>)
     = JStr ''No option chain for symbol''
   \<and> optimizerError (runOptimize
       (Inl \<lparr>message = ''Network Error'', response = None\<rparr>)
       \<lparr>optimizerResult = None, selectedStrategy = 2, optimizing = False, optimizerError = JNull\<rparr>)
     = JStr ''Optimization failed.''
   \<and> selectedStrategy (runOptimize
       (Inl \<lparr>message = ''Network Error'', response = None\<rparr>)
       \<lparr>optimizerResult = None, selectedStrategy = 2, optimizing = False, optimizerError = JNull\<rparr>)
     = 2
   \<and> selected_strat (runOptimize
       (Inr \<lparr>symbol = ''BANKNIFTY'', spot = 51204, iv = 14, strategies = [bull_put_spread, long_call],
             n_candidates_evaluated = 5, optimization_time_ms = 12, is_mock_data = True\<rparr>)
       \<lparr>optimizerResult = None, selectedStrategy = 2, optimizing = False, optimizerError = JNull\<rparr>)
     = Some bull_put_spread"
  using runOptimize_settles
    [of "\<lparr>message = ''Request failed with status code 400'',
          response = Some \<lparr>status = 400, data = JObj [(''detail'', JStr ''No option chain for symbol'')]\<rparr>\<rparr>"
        "\<lparr>optimizerResult = None, selectedStrategy = 2, optimizing = False, optimizerError = JNull\<rparr>"
        "\<lparr>symbol = ''BANKNIFTY'', spot = 51204, iv = 14, strategies = [bull_put_spread, long_call],
          n_candidates_evaluated = 5, optimization_time_ms = 12, is_mock_data = True\<rparr>"]
    runOptimize_settles
    [of "\<lparr>message = ''Network Error'', response = None\<rparr>"
        "\<lparr>optimizerResult = None, selectedStrategy = 2, optimizing = False, optimizerError = JNull\<rparr>"]
  by (simp add: error_detail_def first_strategy_def)

text \<open>
  The claim as it is written fails where the body's \<^verbatim>\<open>detail\<close> is present and falsy:
  a response \<^verbatim>\<open>{"detail": ""}\<close> has a detail field, and the store's error becomes the
  default message, not that field.
\<close>

theorem runOptimize_detail_counterexample:
  "error_detail \<lparr>message = ''Request failed with status code 400'',
                  response = Some \<lparr>status = 400, data = JObj [(''detail'', JStr '''')]\<rparr>\<rparr> = JStr ''''
   \<and> optimizerError (runOptimize
         (Inl \<lparr>message = ''Request failed with status code 400'',
               response = Some \<lparr>status = 400, data = JObj [(''detail'', JStr '''')]\<rparr>\<rparr>)
         \<lparr>optimizerResult = None, selectedStrategy = 0, optimizing = False, optimizerError = JNull\<rparr>)
       = JStr ''Optimization failed.''
   \<and> optimizerError (runOptimize
         (Inl \<lparr>message = ''Request failed with status code 400'',
               response = Some \<lparr>status = 400, data = JObj [(''detail'', JStr '''')]\<rparr>\<rparr>)
         \<lparr>optimizerResult = None, selectedStrategy = 0, optimizing = False, optimizerError = JNull\<rparr>)
       \<noteq> error_detail \<lparr>message = ''Request failed with status code 400'',
                  response = Some \<lparr>status = 400, data = JObj [(''detail'', JStr '''')]\<rparr>\<rparr>"
  by (simp add: runOptimize_def runOptimize_settle_def runOptimize_begin_def js_or_def error_detail_def)

section \<open>The optimizer's ranking\<close>

lemma outranks_key: "outranks a b \<longleftrightarrow> rank_key a < rank_key b"
  by (auto simp add: outranks_def rank_key_def less_prod_def)

lemma tied_key: "tied a b \<longleftrightarrow> rank_key a = rank_key b"
  by (auto simp add: tied_def rank_key_def)

lemma tied_fun: "tied k = (\<lambda>y. rank_key y = rank_key k)"
  by (auto simp add: fun_eq_iff tied_key)

lemma tied_fun_sym: "tied k = (\<lambda>y. rank_key k = rank_key y)"
  by (auto simp add: fun_eq_iff tied_key)

lemma ranked_before_key: "ranked_before a b \<longleftrightarrow> rank_key a \<le> rank_key b"
  by (auto simp add: ranked_before_def rank_key_def less_eq_prod_def)

text \<open>The ranking is the library's stable insertion sort on \<open>rank_key\<close>.\<close>

lemma insert_ranked_insort: "insert_ranked x ys = insort_key rank_key x ys"
  by (induction ys) (auto simp add: outranks_key)

lemma rank_sort_key: "rank xs = sort_key rank_key xs"
  by (induction xs) (simp_all add: insert_ranked_insort)

lemma mset_rank: "mset (rank xs) = mset xs"
  by (simp add: rank_sort_key)

lemma set_rank: "set (rank xs) = set xs"
  using mset_rank [of xs] by (metis set_mset_mset)

lemma sorted_rank: "sorted_wrt ranked_before (rank xs)"
  using sorted_sort_key [of rank_key xs]
  by (simp add: rank_sort_key ranked_before_key [abs_def] sorted_map)

lemma rank_stable: "filter (tied k) (rank xs) = filter (tied k) xs"
  using sort_key_stable [of rank_key "rank_key k" xs]
  by (simp add: rank_sort_key tied_fun)

text \<open>The three rules leave the ranking no freedom.\<close>

lemma rank_unique:
  assumes "mset ys = mset xs"
    and "sorted_wrt ranked_before ys"
    and "\<And>k. filter (tied k) ys = filter (tied k) xs"
  shows "ys = rank xs"
proof -
  have "sorted (map rank_key ys)"
    using assms(2) by (simp add: ranked_before_key [abs_def] sorted_map)
  moreover have "\<And>k. k \<in> set ys \<Longrightarrow>
      filter (\<lambda>x. rank_key k = rank_key x) ys = filter (\<lambda>x. rank_key k = rank_key x) xs"
    using assms(3) [unfolded tied_fun_sym] by simp
  ultimately have "sort_key rank_key xs = ys"
    using assms(1) by (intro properties_for_sort_key) auto
  then show ?thesis by (simp add: rank_sort_key)
qed

lemma sorted_wrt_take: "sorted_wrt P xs \<Longrightarrow> sorted_wrt P (take n xs)"
  by (metis append_take_drop_id sorted_wrt_append)

lemma example_run:
  "optimize default_inputs [bull_call_spread, long_call, short_put, bull_put_spread, call_ratio_spread]
     = [bull_put_spread, call_ratio_spread, bull_call_spread]"
  by (simp add: optimize_def default_inputs_def exceeds_capital_def outranks_def
        bull_call_spread_def long_call_def short_put_def bull_put_spread_def call_ratio_spread_def)

lemma example_rank:
  "rank [bull_call_spread, long_call, short_put, bull_put_spread, call_ratio_spread]
     = [short_put, bull_put_spread, call_ratio_spread, bull_call_spread, long_call]"
  by (simp add: outranks_def
        bull_call_spread_def long_call_def short_put_def bull_put_spread_def call_ratio_spread_def)

lemma example_tied: "tied bull_call_spread long_call"
  by (simp add: tied_def bull_call_spread_def long_call_def)

lemma example_filter_tied:
  "filter (tied long_call) [bull_call_spread, long_call, short_put, bull_put_spread, call_ratio_spread]
     = [bull_call_spread, long_call]"
  by (simp add: tied_def
        bull_call_spread_def long_call_def short_put_def bull_put_spread_def call_ratio_spread_def)

text \<open>
  Claim C1. Every strategy the optimizer returns has a total margin of at most the
  capital of the request parameters, whatever the candidates, the capital and
  \<open>top_n\<close> are: ranking and truncation only keep candidates that passed the filter.
\<close>

theorem optimize_within_capital:
  "\<forall>s \<in> set (optimize p cands). total (margin s) \<le> capital p"
proof
  fix s assume "s \<in> set (optimize p cands)"
  then have "s \<in> set (rank (filter (\<lambda>s. \<not> exceeds_capital (capital p) s) cands))"
    unfolding optimize_def by (rule in_set_takeD)
  then show "total (margin s) \<le> capital p"
    by (simp add: set_rank exceeds_capital_def)
qed

theorem optimize_within_capital_witness:
  "optimize default_inputs [bull_call_spread, long_call, short_put, bull_put_spread, call_ratio_spread]
     = [bull_put_spread, call_ratio_spread, bull_call_spread]
   \<and> total (margin bull_put_spread) \<le> capital default_inputs
   \<and> total (margin call_ratio_spread) \<le> capital default_inputs
   \<and> total (margin bull_call_spread) \<le> capital default_inputs"
  using optimize_within_capital [of default_inputs
      "[bull_call_spread, long_call, short_put, bull_put_spread, call_ratio_spread]"]
  by (simp add: example_run)

text \<open>
  Claim C2. The optimizer returns exactly the first \<open>top_n\<close> of the ranking of the
  candidates that passed the capital filter. The ranking \<open>rank xs\<close> of candidates
  \<open>xs\<close> holds each of them once, is ordered by EV descending, then POP descending, then
  Sharpe descending, and keeps candidates that tie on all three in generation order; it
  is the only ordering of \<open>xs\<close> with these properties, so the result is a function of the
  candidates, the capital and \<open>top_n\<close> alone.
\<close>

theorem optimize_ranked_order:
  "optimize p cands = take (top_n p) (rank (filter (\<lambda>s. \<not> exceeds_capital (capital p) s) cands))
   \<and> length (optimize p cands)
       = min (top_n p) (length (filter (\<lambda>s. \<not> exceeds_capital (capital p) s) cands))
   \<and> sorted_wrt ranked_before (optimize p cands)
   \<and> mset (rank xs) = mset xs
   \<and> sorted_wrt ranked_before (rank xs)
   \<and> (\<forall>k. filter (tied k) (rank xs) = filter (tied k) xs)
   \<and> (\<forall>ys. mset ys = mset xs \<and> sorted_wrt ranked_before ys
            \<and> (\<forall>k. filter (tied k) ys = filter (tied k) xs) \<longrightarrow> ys = rank xs)"
proof -
  have "length (rank ys) = length ys" for ys
    using mset_rank [of ys] by (metis size_mset)
  then have "length (optimize p cands)
      = min (top_n p) (length (filter (\<lambda>s. \<not> exceeds_capital (capital p) s) cands))"
    by (simp add: optimize_def min.commute)
  moreover have "sorted_wrt ranked_before (optimize p cands)"
    unfolding optimize_def by (rule sorted_wrt_take) (rule sorted_rank)
  moreover have "\<forall>ys. mset ys = mset xs \<and> sorted_wrt ranked_before ys
            \<and> (\<forall>k. filter (tied k) ys = filter (tied k) xs) \<longrightarrow> ys = rank xs"
    using rank_unique by blast
  ultimately show ?thesis
    by (simp add: optimize_def mset_rank sorted_rank rank_stable)
qed

theorem optimize_ranked_order_witness:
  "optimize default_inputs [bull_call_spread, long_call, short_put, bull_put_spread, call_ratio_spread]
     = [bull_put_spread, call_ratio_spread, bull_call_spread]
   \<and> rank [bull_call_spread, long_call, short_put, bull_put_spread, call_ratio_spread]
     = [short_put, bull_put_spread, call_ratio_spread, bull_call_spread, long_call]
   \<and> sorted_wrt ranked_before [short_put, bull_put_spread, call_ratio_spread, bull_call_spread, long_call]
   \<and> tied bull_call_spread long_call
   \<and> filter (tied long_call) [short_put, bull_put_spread, call_ratio_spread, bull_call_spread, long_call]
     = [bull_call_spread, long_call]"
proof -
  note inst = optimize_ranked_order [of default_inputs
      "[bull_call_spread, long_call, short_put, bull_put_spread, call_ratio_spread]"
      "[bull_call_spread, long_call, short_put, bull_put_spread, call_ratio_spread]"]
  from inst have "sorted_wrt ranked_before
      (rank [bull_call_spread, long_call, short_put, bull_put_spread, call_ratio_spread])"
    by (elim conjE)
  then have sorted: "sorted_wrt ranked_before
      [short_put, bull_put_spread, call_ratio_spread, bull_call_spread, long_call]"
    by (simp only: example_rank)
  from inst have "\<forall>k. filter (tied k)
        (rank [bull_call_spread, long_call, short_put, bull_put_spread, call_ratio_spread])
      = filter (tied k) [bull_call_spread, long_call, short_put, bull_put_spread, call_ratio_spread]"
    by (elim conjE)
  then have "filter (tied long_call)
        (rank [bull_call_spread, long_call, short_put, bull_put_spread, call_ratio_spread])
      = filter (tied long_call) [bull_call_spread, long_call, short_put, bull_put_spread, call_ratio_spread]"
    by (rule spec)
  then have stable: "filter (tied long_call)
        [short_put, bull_put_spread, call_ratio_spread, bull_call_spread, long_call]
      = [bull_call_spread, long_call]"
    by (simp only: example_rank example_filter_tied)
  from example_run example_rank sorted example_tied stable show ?thesis
    by (intro conjI)
qed

end
